theory Spec2Isabelle
  imports Main "HOL-Library.Word"
begin

unbundle bit_operations_syntax

section \<open>Python values, exceptions and the module logger\<close>

text \<open>
  The module \<^verbatim>\<open>tion_btle/tion.py\<close> is embedded function by function. Python integers are
  \<^typ>\<open>int\<close>, a \<^verbatim>\<open>bytearray\<close> is a list of bytes, and every exception the source can raise is
  a value: a function that may raise returns \<open>exn + 'a\<close>, with \<open>Inl\<close> for the exception.
\<close>

type_synonym byte = "8 word"
type_synonym bytes = "byte list"

datatype exn =
    UnboundLocalError string
  | IndexError
  | KeyError string
  | BleakError string
  | TypeError string
  | TionException string string
  | OtherException string
  | CancelledError
  | OtherBaseException string

text \<open>
  \<^verbatim>\<open>except Exception\<close> catches the subclasses of \<^verbatim>\<open>Exception\<close> only.
  \<^verbatim>\<open>asyncio.CancelledError\<close> derives from \<^verbatim>\<open>BaseException\<close>, as do \<^verbatim>\<open>KeyboardInterrupt\<close>
  and \<^verbatim>\<open>SystemExit\<close> (the last constructor), so such a handler lets them pass.
\<close>

fun is_Exception :: "exn \<Rightarrow> bool" where
  "is_Exception CancelledError = False"
| "is_Exception (OtherBaseException m) = False"
| "is_Exception e = True"

datatype pyval = PyNone | PyStr string | PyBytes bytes | PyInt int | PyBool bool

datatype level = DEBUG | INFO | WARNING

type_synonym log = "(level \<times> string) list"

section \<open>Rendering integers and bytes as text\<close>

definition digit_char :: "nat \<Rightarrow> char" where
  "digit_char d = ''0123456789abcdef'' ! (d mod 16)"

function str_nat :: "nat \<Rightarrow> string" where
  "str_nat n = (if n < 10 then [digit_char n] else str_nat (n div 10) @ [digit_char (n mod 10)])"
  by pat_completeness auto
termination
  by (relation "measure id") auto

definition str_int :: "int \<Rightarrow> string" where
  "str_int i = (if i < 0 then CHR ''-'' # str_nat (nat (- i)) else str_nat (nat i))"

definition hex_byte :: "byte \<Rightarrow> string" where
  "hex_byte b = [digit_char (unat b div 16), digit_char (unat b mod 16)]"

definition hex :: "bytes \<Rightarrow> string" where
  "hex bs = concat (map hex_byte bs)"

section \<open>TionDelegation\<close>

text \<open>
  The notification sink holds the last payload and a flag. \<^verbatim>\<open>handleNotification\<close> also
  writes a debug record to the module logger, so it takes and returns the log. The
  property \<^verbatim>\<open>data\<close> clears the flag and returns the buffer; \<^verbatim>\<open>have_new_data\<close> only reads.
\<close>

record TionDelegation =
  have_new_data_attr :: bool
  data_attr :: bytes

definition TionDelegation_init :: "TionDelegation" where
  "TionDelegation_init = \<lparr>have_new_data_attr = False, data_attr = []\<rparr>"

definition handleNotification :: "int \<Rightarrow> bytes \<Rightarrow> TionDelegation \<times> log \<Rightarrow> TionDelegation \<times> log" where
  "handleNotification handle d = (\<lambda>(self, lg).
     (self\<lparr>data_attr := d, have_new_data_attr := True\<rparr>,
      lg @ [(DEBUG, ''Got data in '' @ str_int handle @ '' response '' @ hex d)]))"

definition data :: "TionDelegation \<Rightarrow> bytes \<times> TionDelegation" where
  "data self = (let self' = self\<lparr>have_new_data_attr := False\<rparr> in (data_attr self', self'))"

definition have_new_data :: "TionDelegation \<Rightarrow> bool" where
  "have_new_data self = have_new_data_attr self"

section \<open>Temperature and status decoding\<close>

text \<open>
  In \<^verbatim>\<open>decode_temperature\<close> the local \<^verbatim>\<open>result\<close> is assigned in the first branch only.
  A local that may be unbound is an \<open>int option\<close>; reading it while \<open>None\<close> raises
  \<^verbatim>\<open>UnboundLocalError\<close>. Python's \<^verbatim>\<open>~\<close> on integers is \<open>NOT\<close> on \<^typ>\<open>int\<close>.
\<close>

definition read_local :: "string \<Rightarrow> int option \<Rightarrow> exn + int" where
  "read_local name v = (case v of None \<Rightarrow> Inl (UnboundLocalError name) | Some x \<Rightarrow> Inr x)"

definition decode_temperature :: "int \<Rightarrow> exn + int" where
  "decode_temperature raw =
     (let barrier = 128; result = None in
      if raw < barrier then Inr raw
      else (case read_local ''result'' result of
              Inl e \<Rightarrow> Inl e
            | Inr r \<Rightarrow> Inr (- (NOT (r - barrier) + barrier + 1))))"

text \<open>Python list indexing: a negative index counts from the end, anything else out of
  range raises \<^verbatim>\<open>IndexError\<close>.\<close>

definition py_index :: "'a list \<Rightarrow> int \<Rightarrow> exn + 'a" where
  "py_index xs i =
     (if 0 \<le> i \<and> i < int (length xs) then Inr (xs ! nat i)
      else if i < 0 \<and> - int (length xs) \<le> i then Inr (xs ! nat (int (length xs) + i))
      else Inl IndexError)"

definition statuses :: "string list" where
  "statuses = [''off'', ''on'']"

definition process_status :: "int \<Rightarrow> exn + string" where
  "process_status code =
     (case py_index statuses code of
        Inr status \<Rightarrow> Inr status
      | Inl IndexError \<Rightarrow> Inr ''unknown''
      | Inl e \<Rightarrow> Inl e)"

section \<open>The transport\<close>

text \<open>
  \<^verbatim>\<open>BleakClient\<close> is an external library. Its behaviour is a parameter: a record of
  operations over a client state \<open>'t\<close>, each returning its result (or the exception it
  raises) and the next client state. The driver keeps the client state in \<open>btle_attr\<close>
  and, for the sake of the properties below, a trace \<open>calls\<close> of every operation it
  invoked on the client.
\<close>

datatype call =
    IsConnected
  | Connect
  | Disconnect
  | WriteGattChar string bytes bool
  | StartNotify string

record 't bleak =
  bleak_is_connected :: "'t \<Rightarrow> (exn + bool) \<times> 't"
  bleak_connect :: "'t \<Rightarrow> (exn + pyval) \<times> 't"
  bleak_disconnect :: "'t \<Rightarrow> (exn + pyval) \<times> 't"
  bleak_write_gatt_char :: "string \<Rightarrow> bytes \<Rightarrow> bool \<Rightarrow> 't \<Rightarrow> (exn + pyval) \<times> 't"
  bleak_start_notify :: "string \<Rightarrow> 't \<Rightarrow> (exn + pyval) \<times> 't"

section \<open>The driver class tion\<close>

text \<open>
  The instance attributes of \<^verbatim>\<open>tion\<close>, the class attributes \<^verbatim>\<open>uuid_notify\<close> and
  \<^verbatim>\<open>uuid_write\<close> (empty in the base class), the records written to the module logger and
  the seconds spent in \<^verbatim>\<open>time.sleep\<close>.
\<close>

record 't tion =
  mac_attr :: string
  btle_attr :: 't
  delegation_attr :: TionDelegation
  fan_speed_attr :: int
  uuid_notify :: string
  uuid_write :: string
  calls :: "call list"
  logger :: log
  slept :: int

definition tion_init :: "string \<Rightarrow> 't \<Rightarrow> 't tion" where
  "tion_init m client =
     \<lparr>mac_attr = m, btle_attr = client, delegation_attr = TionDelegation_init,
      fan_speed_attr = 0, uuid_notify = [], uuid_write = [],
      calls = [], logger = [], slept = 0\<rparr>"

definition mac :: "'t tion \<Rightarrow> string" where
  "mac self = mac_attr self"

definition emit :: "level \<Rightarrow> string \<Rightarrow> 't tion \<Rightarrow> 't tion" where
  "emit lvl msg self = self\<lparr>logger := logger self @ [(lvl, msg)]\<rparr>"

definition sleep :: "int \<Rightarrow> 't tion \<Rightarrow> 't tion" where
  "sleep secs self = self\<lparr>slept := slept self + secs\<rparr>"

text \<open>One call on the client: the trace grows by the call and the client state moves on.\<close>

definition invoke :: "call \<Rightarrow> ('t \<Rightarrow> (exn + 'r) \<times> 't) \<Rightarrow> 't tion \<Rightarrow> (exn + 'r) \<times> 't tion" where
  "invoke c operation self =
     (case operation (btle_attr self) of
        (r, client) \<Rightarrow> (r, self\<lparr>btle_attr := client, calls := calls self @ [c]\<rparr>))"

definition connection_status :: "'t bleak \<Rightarrow> 't tion \<Rightarrow> (exn + string) \<times> 't tion" where
  "connection_status b self =
     (case invoke IsConnected (bleak_is_connected b) self of
        (Inl e, s1) \<Rightarrow> (Inl e, s1)
      | (Inr up, s1) \<Rightarrow> (Inr (if up then ''connected'' else ''disc''), s1))"

definition connect :: "'t bleak \<Rightarrow> 't tion \<Rightarrow> (exn + pyval) \<times> 't tion" where
  "connect b self =
     (if mac self = ''dummy'' then (Inr PyNone, emit INFO ''Dummy connect'' self)
      else
        (case connection_status b self of
           (Inl e, s1) \<Rightarrow> (Inl e, s1)
         | (Inr status, s1) \<Rightarrow>
             if status = ''disc'' then
               (case invoke Connect (bleak_connect b) s1 of
                  (Inr _, s2) \<Rightarrow> (Inr PyNone, s2)
                | (Inl (BleakError m), s2) \<Rightarrow>
                    (Inl (BleakError m), sleep 2 (emit WARNING (''Got '' @ m @ '' exception'') s2))
                | (Inl e, s2) \<Rightarrow> (Inl e, s2))
             else (Inr PyNone, s1)))"

definition disconnect :: "'t bleak \<Rightarrow> 't tion \<Rightarrow> (exn + pyval) \<times> 't tion" where
  "disconnect b self =
     (case connection_status b self of
        (Inl e, s1) \<Rightarrow> (Inl e, s1)
      | (Inr status, s1) \<Rightarrow>
          if status \<noteq> ''disc'' then
            (if mac s1 \<noteq> ''dummy'' then
               (case invoke Disconnect (bleak_disconnect b) s1 of
                  (Inl e, s2) \<Rightarrow> (Inl e, s2)
                | (Inr _, s2) \<Rightarrow> (Inr PyNone, s2))
             else (Inr PyNone, s1))
          else (Inr PyNone, s1))"

definition try_write :: "'t bleak \<Rightarrow> bytes \<Rightarrow> 't tion \<Rightarrow> (exn + pyval) \<times> 't tion" where
  "try_write b request self =
     (if mac self \<noteq> ''dummy'' then
        (let s1 = emit DEBUG (''Writing '' @ hex request @ '' to '' @ uuid_write self) self in
         invoke (WriteGattChar (uuid_write s1) request False)
           (bleak_write_gatt_char b (uuid_write s1) request False) s1)
      else (Inr (PyStr ''dummy write''), emit INFO ''Dummy write'' self))"

definition enable_notifications :: "'t bleak \<Rightarrow> 't tion \<Rightarrow> (exn + pyval) \<times> 't tion" where
  "enable_notifications b self =
     (let s1 = emit DEBUG ''Enabling notification'' self in
      invoke (StartNotify (uuid_notify s1)) (bleak_start_notify b (uuid_notify s1)) s1)"

definition fan_speed :: "'t tion \<Rightarrow> int" where
  "fan_speed self = fan_speed_attr self"

definition fan_speed_set :: "int \<Rightarrow> 't tion \<Rightarrow> 't tion" where
  "fan_speed_set new_speed self =
     (if 0 \<le> new_speed \<and> new_speed \<le> 6 then self\<lparr>fan_speed_attr := new_speed\<rparr>
      else (emit WARNING ''Incorrect new fan speed. Will use 1 instead'' self)
             \<lparr>fan_speed_attr := 1\<rparr>)"

section \<open>The retry wrapper\<close>

text \<open>
  An action is a callable: its \<^verbatim>\<open>__name__\<close> and what a call does to the driver, given the
  positional and keyword arguments that \<^verbatim>\<open>_do_action\<close> forwards. The keyword arguments are
  an association list from names to byte strings, the only kind the wrapper reads
  (\<^verbatim>\<open>kwargs['request'].hex()\<close>).
\<close>

type_synonym kwargs = "(string \<times> bytes) list"

record 't action =
  name :: string
  call :: "bytes list \<Rightarrow> kwargs \<Rightarrow> 't tion \<Rightarrow> (exn + pyval) \<times> 't tion"

text \<open>\<^verbatim>\<open>str(e)\<close> for the exceptions of the model.\<close>

definition py_repr :: "string \<Rightarrow> string" where
  "py_repr s = [CHR 0x27] @ s @ [CHR 0x27]"

fun str_exn :: "exn \<Rightarrow> string" where
  "str_exn (UnboundLocalError v) =
     ''local variable '' @ py_repr v @ '' referenced before assignment''"
| "str_exn IndexError = ''list index out of range''"
| "str_exn (KeyError k) = py_repr k"
| "str_exn (BleakError m) = m"
| "str_exn (TypeError m) = m"
| "str_exn (TionException e m) = ''('' @ py_repr e @ '', '' @ py_repr m @ '')''"
| "str_exn (OtherException m) = m"
| "str_exn CancelledError = []"
| "str_exn (OtherBaseException m) = m"

text \<open>The body of the \<^verbatim>\<open>try\<close> block: connect first unless the action is the connect
  operation, then call the action. An exception from either leaves the block; the
  handler \<^verbatim>\<open>except Exception\<close> of the loop catches it only if it is an \<^verbatim>\<open>Exception\<close>,
  anything else leaves \<^verbatim>\<open>_do_action\<close> at once, with no warning logged.\<close>

definition attempt :: "'t bleak \<Rightarrow> 't action \<Rightarrow> bytes list \<Rightarrow> kwargs \<Rightarrow> 't tion \<Rightarrow> (exn + pyval) \<times> 't tion" where
  "attempt b action args kw self =
     (if name action \<noteq> ''_connect'' then
        (case connect b self of
           (Inl e, s1) \<Rightarrow> (Inl e, s1)
         | (Inr _, s1) \<Rightarrow> call action args kw s1)
      else call action args kw self)"

definition begin_attempt :: "'t action \<Rightarrow> int \<Rightarrow> int \<Rightarrow> 't tion \<Rightarrow> 't tion" where
  "begin_attempt action tries max_tries self =
     emit DEBUG (''Doing '' @ name action @ ''. Attempt '' @ str_int (tries + 1) @ ''/''
                 @ str_int max_tries) self"

definition note_failure :: "'t action \<Rightarrow> exn \<Rightarrow> 't tion \<Rightarrow> 't tion" where
  "note_failure action e self =
     emit WARNING (''Got exception while '' @ name action @ '': '' @ str_exn e) self"

text \<open>The \<^verbatim>\<open>else\<close> clause of the loop, run when the condition \<^verbatim>\<open>tries < max_tries\<close> fails.\<close>

definition exhausted :: "'t action \<Rightarrow> kwargs \<Rightarrow> 't tion \<Rightarrow> exn" where
  "exhausted action kw self =
     (if name action = ''_connect'' then
        TionException (name action) (''Could not connect to '' @ mac self)
      else if name action = ''__try_write'' then
        (case map_of kw ''request'' of
           None \<Rightarrow> KeyError ''request''
         | Some request \<Rightarrow>
             TionException (name action) (''Could not write request + '' @ hex request))
      else if name action = ''__try_get_state'' then
        TionException (name action) ''Could not get updated state''
      else TionException (name action) (''Could not do '' @ name action))"

function do_action_loop ::
  "'t bleak \<Rightarrow> 't action \<Rightarrow> int \<Rightarrow> bytes list \<Rightarrow> kwargs \<Rightarrow> int \<Rightarrow> 't tion \<Rightarrow> (exn + pyval) \<times> 't tion" where
  "do_action_loop b action max_tries args kw tries self =
     (if tries < max_tries then
        (case attempt b action args kw (begin_attempt action tries max_tries self) of
           (Inr response, s1) \<Rightarrow> (Inr response, s1)
         | (Inl e, s1) \<Rightarrow>
             if is_Exception e then
               do_action_loop b action max_tries args kw (tries + 1) (note_failure action e s1)
             else (Inl e, s1))
      else (Inl (exhausted action kw self), self))"
  by pat_completeness auto
termination
  by (relation "measure (\<lambda>(b, action, max_tries, args, kw, tries, self). nat (max_tries - tries))")
     auto

definition do_action :: "'t bleak \<Rightarrow> 't action \<Rightarrow> int \<Rightarrow> bytes list \<Rightarrow> kwargs \<Rightarrow> 't tion \<Rightarrow> (exn + pyval) \<times> 't tion" where
  "do_action b action max_tries args kw self = do_action_loop b action max_tries args kw 0 self"

text \<open>The bound methods of the driver as actions. A call that does not fit the method's
  parameters raises \<^verbatim>\<open>TypeError\<close> before the method body runs.\<close>

definition connect_action :: "'t bleak \<Rightarrow> 't action" where
  "connect_action b =
     \<lparr>name = ''_connect'',
      call = (\<lambda>args kw self.
        if args = [] \<and> kw = [] then connect b self
        else (Inl (TypeError ''_connect() got unexpected arguments''), self))\<rparr>"

definition try_write_action :: "'t bleak \<Rightarrow> 't action" where
  "try_write_action b =
     \<lparr>name = ''_try_write'',
      call = (\<lambda>args kw self.
        case (args, kw) of
          ([request], []) \<Rightarrow> try_write b request self
        | ([], [(k, request)]) \<Rightarrow>
            if k = ''request'' then try_write b request self
            else (Inl (TypeError ''_try_write() got an unexpected keyword argument''), self)
        | _ \<Rightarrow> (Inl (TypeError ''_try_write() got unexpected arguments''), self))\<rparr>"

definition enable_notifications_action :: "'t bleak \<Rightarrow> 't action" where
  "enable_notifications_action b =
     \<lparr>name = ''_enable_notifications'',
      call = (\<lambda>args kw self.
        if args = [] \<and> kw = [] then enable_notifications b self
        else (Inl (TypeError ''_enable_notifications() got unexpected arguments''), self))\<rparr>"

definition warnings :: "'t tion \<Rightarrow> nat" where
  "warnings self = length (filter (\<lambda>entry. fst entry = WARNING) (logger self))"

text \<open>The number of warnings that one pass through the \<^verbatim>\<open>try\<close> block, started in
  \<open>self\<close>, adds to the log by itself (\<^verbatim>\<open>_connect\<close> logs one when the client raises
  \<^verbatim>\<open>BleakError\<close>; an action may log its own).\<close>

definition logged_inside :: "'t bleak \<Rightarrow> 't action \<Rightarrow> bytes list \<Rightarrow> kwargs \<Rightarrow> 't tion \<Rightarrow> int" where
  "logged_inside b action args kw self =
     int (warnings (snd (attempt b action args kw self))) - int (warnings self)"

section \<open>A scripted client for concrete runs\<close>

text \<open>
  A client for evaluating the driver on concrete inputs. It remembers whether it is
  connected and how many \<^verbatim>\<open>connect\<close> and \<^verbatim>\<open>write_gatt_char\<close> calls will still raise
  \<^verbatim>\<open>BleakError\<close>; each such failure counts its number down.
\<close>

record script =
  connected :: bool
  connect_failures :: nat
  write_failures :: nat

definition fresh_client :: "nat \<Rightarrow> nat \<Rightarrow> script" where
  "fresh_client c w = \<lparr>connected = False, connect_failures = c, write_failures = w\<rparr>"

definition flaky :: "script bleak" where
  "flaky =
     \<lparr>bleak_is_connected = (\<lambda>t. (Inr (connected t), t)),
      bleak_connect = (\<lambda>t.
        if 0 < connect_failures t
        then (Inl (BleakError ''timeout''), t\<lparr>connect_failures := connect_failures t - 1\<rparr>)
        else (Inr PyNone, t\<lparr>connected := True\<rparr>)),
      bleak_disconnect = (\<lambda>t. (Inr PyNone, t\<lparr>connected := False\<rparr>)),
      bleak_write_gatt_char = (\<lambda>uuid request response t.
        if 0 < write_failures t
        then (Inl (BleakError ''write failed''), t\<lparr>write_failures := write_failures t - 1\<rparr>)
        else (Inr PyNone, t)),
      bleak_start_notify = (\<lambda>uuid t. (Inr PyNone, t))\<rparr>"

text \<open>A write method under the name \<^verbatim>\<open>__try_write\<close>, the name the wrapper looks for.\<close>

definition private_write_action :: "'t bleak \<Rightarrow> 't action" where
  "private_write_action b = (try_write_action b)\<lparr>name := ''__try_write''\<rparr>"

text \<open>A callable that raises on every call, under a chosen name.\<close>

definition failing_action :: "string \<Rightarrow> 't action" where
  "failing_action n =
     \<lparr>name = n, call = (\<lambda>args kw self. (Inl (OtherException ''boom''), self))\<rparr>"

section \<open>Sink and decoder properties\<close>

lemma decode_formula_on_raw: "- (NOT (raw - 128) + 128 + 1) = raw - (256::int)"
  by (simp add: not_int_def)

text \<open>
  Claim C8. For every raw byte value r from 0 to 127, \<^verbatim>\<open>decode_temperature\<close> returns r itself.
\<close>

theorem decode_temperature_low:
  assumes "0 \<le> r" and "r \<le> 127"
  shows "decode_temperature r = Inr r"
  using assms by (simp add: decode_temperature_def)

theorem decode_temperature_low_witness:
  "(0::int) \<le> 37 \<and> (37::int) \<le> 127 \<and> decode_temperature 37 = Inr 37"
  using decode_temperature_low [of 37] by simp

text \<open>
  Claim C1. For a raw byte from 128 to 255 the decoder is meant to return r - 256. At
  r = 200 the source reads the local \<^verbatim>\<open>result\<close> before any assignment, so the call raises
  \<^verbatim>\<open>UnboundLocalError\<close> and returns no integer; \<open>decode_formula_on_raw\<close> shows that the
  same expression over \<^verbatim>\<open>raw\<close> would give r - 256.
\<close>

theorem decode_temperature_high_raises:
  "decode_temperature 200 = Inl (UnboundLocalError ''result'') \<and>
   decode_temperature 200 \<noteq> Inr (200 - 256)"
  by (simp add: decode_temperature_def read_local_def)

text \<open>
  Claim C10. A freshly constructed sink has no new data, and reading \<^verbatim>\<open>data\<close> returns the
  empty byte sequence.
\<close>

theorem fresh_sink_empty:
  "have_new_data TionDelegation_init = False \<and> fst (data TionDelegation_init) = []"
  by (simp add: have_new_data_def data_def TionDelegation_init_def)

text \<open>
  Claim C7. After a payload d is pushed through \<^verbatim>\<open>handleNotification\<close>, new data is
  flagged; reading \<^verbatim>\<open>data\<close> returns d and clears the flag but keeps the buffer; a second
  read returns d again and leaves the sink as the first read left it.
\<close>

theorem sink_push_take:
  "have_new_data (fst (handleNotification h d (self, lg))) \<and>
   fst (data (fst (handleNotification h d (self, lg)))) = d \<and>
   \<not> have_new_data (snd (data (fst (handleNotification h d (self, lg))))) \<and>
   data_attr (snd (data (fst (handleNotification h d (self, lg))))) = d \<and>
   fst (data (snd (data (fst (handleNotification h d (self, lg)))))) = d \<and>
   snd (data (snd (data (fst (handleNotification h d (self, lg)))))) =
     snd (data (fst (handleNotification h d (self, lg))))"
  by (simp add: handleNotification_def data_def have_new_data_def)

section \<open>Status labels\<close>

text \<open>
  Claim C2, as the code has it. A code that is an index into the status list returns its
  label, and so does a negative code down to minus the length of the list, counted from
  the end; only codes at or beyond the length, or below minus the length, give
  \<^verbatim>\<open>unknown\<close>.
\<close>

theorem process_status_cases:
  "(0 \<le> code \<and> code < int (length statuses) \<longrightarrow>
      process_status code = Inr (statuses ! nat code)) \<and>
   (- int (length statuses) \<le> code \<and> code < 0 \<longrightarrow>
      process_status code = Inr (statuses ! nat (int (length statuses) + code))) \<and>
   (int (length statuses) \<le> code \<or> code < - int (length statuses) \<longrightarrow>
      process_status code = Inr ''unknown'')"
  by (auto simp add: process_status_def py_index_def)

theorem process_status_cases_witness:
  "process_status 1 = Inr ''on'' \<and> process_status (- 2) = Inr ''off'' \<and>
   process_status 7 = Inr ''unknown''"
  using process_status_cases [of 1] process_status_cases [of "- 2"] process_status_cases [of 7]
  by (simp add: statuses_def)

text \<open>The claim as stated fails at the negative code -1, which returns the last label.\<close>

theorem process_status_negative_counterexample:
  "process_status (- 1) = Inr ''on'' \<and> process_status (- 1) \<noteq> Inr ''unknown''"
  by (simp add: process_status_def py_index_def statuses_def)

section \<open>Fan speed\<close>

lemma fan_speed_set_range:
  "0 \<le> fan_speed (fan_speed_set s self) \<and> fan_speed (fan_speed_set s self) \<le> 6"
  by (simp add: fan_speed_set_def fan_speed_def emit_def)

lemma fan_speed_fold_range:
  "0 \<le> fan_speed self \<and> fan_speed self \<le> 6 \<Longrightarrow>
   0 \<le> fan_speed (foldl (\<lambda>st x. fan_speed_set x st) self xs) \<and>
   fan_speed (foldl (\<lambda>st x. fan_speed_set x st) self xs) \<le> 6"
proof (induction xs arbitrary: self)
  case Nil
  then show ?case by simp
next
  case (Cons x xs)
  show ?case
    using Cons.IH [of "fan_speed_set x self"] fan_speed_set_range [of x self] by simp
qed

text \<open>
  Claim C6. Assigning s to the fan speed stores s when s is between 0 and 6 and stores 1
  for every other integer; after construction and any sequence of assignments the
  stored fan speed is between 0 and 6.
\<close>

theorem fan_speed_assignment:
  "(0 \<le> s \<and> s \<le> 6 \<longrightarrow> fan_speed (fan_speed_set s self) = s) \<and>
   (s < 0 \<or> 6 < s \<longrightarrow> fan_speed (fan_speed_set s self) = 1) \<and>
   0 \<le> fan_speed (foldl (\<lambda>st x. fan_speed_set x st) (tion_init m client) xs) \<and>
   fan_speed (foldl (\<lambda>st x. fan_speed_set x st) (tion_init m client) xs) \<le> 6"
proof -
  have init: "0 \<le> fan_speed (tion_init m client) \<and> fan_speed (tion_init m client) \<le> 6"
    by (simp add: tion_init_def fan_speed_def)
  have a: "0 \<le> s \<and> s \<le> 6 \<longrightarrow> fan_speed (fan_speed_set s self) = s"
    by (simp add: fan_speed_set_def fan_speed_def)
  have b: "s < 0 \<or> 6 < s \<longrightarrow> fan_speed (fan_speed_set s self) = 1"
    by (auto simp add: fan_speed_set_def fan_speed_def emit_def)
  from a b fan_speed_fold_range [OF init, of xs] show ?thesis by blast
qed

theorem fan_speed_assignment_witness:
  "fan_speed (fan_speed_set 4 (tion_init ''aa:bb'' (fresh_client 0 0))) = 4 \<and>
   fan_speed (fan_speed_set 9 (tion_init ''aa:bb'' (fresh_client 0 0))) = 1 \<and>
   fan_speed (fan_speed_set (- 3) (tion_init ''aa:bb'' (fresh_client 0 0))) = 1 \<and>
   fan_speed (foldl (\<lambda>st x. fan_speed_set x st) (tion_init ''aa:bb'' (fresh_client 0 0))
     [7, 3, - 1]) \<le> 6"
  using
    fan_speed_assignment [of 4 "tion_init ''aa:bb'' (fresh_client 0 0)" "''aa:bb''"
      "fresh_client 0 0" "[7, 3, - 1]"]
    fan_speed_assignment [of 9 "tion_init ''aa:bb'' (fresh_client 0 0)" "''aa:bb''"
      "fresh_client 0 0" "[]"]
    fan_speed_assignment [of "- 3" "tion_init ''aa:bb'' (fresh_client 0 0)" "''aa:bb''"
      "fresh_client 0 0" "[]"]
  by simp

section \<open>The retry wrapper: unfolding the loop\<close>

lemma loop_retry:
  assumes "tries < max_tries"
    and "attempt b a args kw (begin_attempt a tries max_tries s) = (Inl e, s1)"
    and "is_Exception e"
  shows "do_action_loop b a max_tries args kw tries s =
         do_action_loop b a max_tries args kw (tries + 1) (note_failure a e s1)"
  using assms by (subst do_action_loop.simps) simp

lemma loop_escape:
  assumes "tries < max_tries"
    and "attempt b a args kw (begin_attempt a tries max_tries s) = (Inl e, s1)"
    and "\<not> is_Exception e"
  shows "do_action_loop b a max_tries args kw tries s = (Inl e, s1)"
  using assms by (subst do_action_loop.simps) simp

lemma loop_break:
  assumes "tries < max_tries"
    and "attempt b a args kw (begin_attempt a tries max_tries s) = (Inr v, s1)"
  shows "do_action_loop b a max_tries args kw tries s = (Inr v, s1)"
  using assms by (subst do_action_loop.simps) simp

lemma loop_else:
  assumes "\<not> tries < max_tries"
  shows "do_action_loop b a max_tries args kw tries s = (Inl (exhausted a kw s), s)"
  using assms by (subst do_action_loop.simps) simp

lemma exhausted_TionException:
  assumes "name a = ''__try_write'' \<longrightarrow> map_of kw ''request'' \<noteq> None"
  shows "\<exists>msg. exhausted a kw s = TionException (name a) msg"
  using assms by (auto simp add: exhausted_def split: option.splits)

lemma exhausted_ignores_call: "exhausted (a\<lparr>call := c\<rparr>) kw s = exhausted a kw s"
  by (simp add: exhausted_def split: option.splits)

lemma warnings_begin_attempt: "warnings (begin_attempt a tries max_tries s) = warnings s"
  by (simp add: warnings_def begin_attempt_def emit_def)

lemma warnings_note_failure: "warnings (note_failure a e s) = warnings s + 1"
  by (simp add: warnings_def note_failure_def emit_def)

section \<open>No attempts allowed\<close>

text \<open>
  With \<^verbatim>\<open>max_tries\<close> at most 0 the loop body never runs: the \<^verbatim>\<open>else\<close> clause is reached at
  once, the driver is left as it was, and the outcome depends neither on what the action
  does nor on the client. Where the message can be built, the exception raised is
  \<^verbatim>\<open>TionException\<close> with the action's name.
\<close>

lemma do_action_no_tries:
  assumes "max_tries \<le> 0"
  shows "do_action b a max_tries args kw s = (Inl (exhausted a kw s), s) \<and>
         do_action b' (a\<lparr>call := c\<rparr>) max_tries args kw s = do_action b a max_tries args kw s \<and>
         ((name a = ''__try_write'' \<longrightarrow> map_of kw ''request'' \<noteq> None) \<longrightarrow>
          (\<exists>msg. do_action b a max_tries args kw s = (Inl (TionException (name a) msg), s)))"
proof -
  have stop: "\<not> (0::int) < max_tries" using assms by simp
  have here: "do_action b a max_tries args kw s = (Inl (exhausted a kw s), s)"
    unfolding do_action_def by (rule loop_else [OF stop])
  have there: "do_action b' (a\<lparr>call := c\<rparr>) max_tries args kw s =
               (Inl (exhausted (a\<lparr>call := c\<rparr>) kw s), s)"
    unfolding do_action_def by (rule loop_else [OF stop])
  from exhausted_TionException [of a kw s] here there show ?thesis
    by (auto simp add: exhausted_ignores_call)
qed

text \<open>
  Claim C9. With \<^verbatim>\<open>max_tries\<close> at most 0 the wrapper is to raise its \<^verbatim>\<open>TionException\<close> at
  once, whatever the action. For a write method named \<^verbatim>\<open>__try_write\<close>, called with
  \<^verbatim>\<open>max_tries\<close> 0 and the request 3d01 as a positional argument, the \<^verbatim>\<open>else\<close> clause
  looks up \<^verbatim>\<open>kwargs['request']\<close> while building the message and raises \<^verbatim>\<open>KeyError\<close>
  instead; the action is not executed and the driver is unchanged.
\<close>

theorem do_action_no_tries_keyerror:
  "do_action flaky (private_write_action flaky) 0 [[0x3d, 0x01]] []
     (tion_init ''aa:bb'' (fresh_client 0 0)) =
   (Inl (KeyError ''request''), tion_init ''aa:bb'' (fresh_client 0 0))"
  unfolding do_action_def
  by (subst do_action_loop.simps)
     (simp add: exhausted_def private_write_action_def try_write_action_def)

section \<open>Three attempts\<close>

text \<open>
  Claim C5, as the code has it. Run with three attempts, an action whose first two
  attempts raise an \<^verbatim>\<open>Exception\<close> and whose third succeeds makes the wrapper return the
  success value, and the wrapper itself logs exactly two warnings, one after each failed
  attempt: the log gains two warnings beyond those written inside the attempts. When the
  third attempt raises an \<^verbatim>\<open>Exception\<close> as well, the wrapper raises \<^verbatim>\<open>TionException\<close> with
  the action's name, where the message can be built (an action named \<^verbatim>\<open>__try_write\<close>
  without a \<^verbatim>\<open>request\<close> keyword argument is left aside); an exception that is not an
  \<^verbatim>\<open>Exception\<close> leaves the wrapper as it is. No failure is swallowed.
\<close>

theorem do_action_three_attempts:
  assumes first: "attempt b a args kw (begin_attempt a 0 3 s0) = (Inl e1, s1)"
    and caught1: "is_Exception e1"
    and second: "attempt b a args kw (begin_attempt a 1 3 (note_failure a e1 s1)) = (Inl e2, s2)"
    and caught2: "is_Exception e2"
    and third: "attempt b a args kw (begin_attempt a 2 3 (note_failure a e2 s2)) = (r3, s3)"
  shows "(\<forall>v. r3 = Inr v \<longrightarrow>
            do_action b a 3 args kw s0 = (Inr v, s3) \<and>
            int (warnings s3) = int (warnings s0) + 2
              + logged_inside b a args kw (begin_attempt a 0 3 s0)
              + logged_inside b a args kw (begin_attempt a 1 3 (note_failure a e1 s1))
              + logged_inside b a args kw (begin_attempt a 2 3 (note_failure a e2 s2))) \<and>
         (\<forall>e3. r3 = Inl e3 \<longrightarrow> is_Exception e3 \<longrightarrow>
            (name a = ''__try_write'' \<longrightarrow> map_of kw ''request'' \<noteq> None) \<longrightarrow>
            (\<exists>msg. do_action b a 3 args kw s0 =
                     (Inl (TionException (name a) msg), note_failure a e3 s3))) \<and>
         (\<forall>e3. r3 = Inl e3 \<longrightarrow> \<not> is_Exception e3 \<longrightarrow>
            do_action b a 3 args kw s0 = (Inl e3, s3))"
proof -
  have step1: "do_action b a 3 args kw s0 =
               do_action_loop b a 3 args kw 1 (note_failure a e1 s1)"
    unfolding do_action_def using loop_retry [of 0 3, OF _ first caught1] by simp
  have step2: "do_action_loop b a 3 args kw 1 (note_failure a e1 s1) =
               do_action_loop b a 3 args kw 2 (note_failure a e2 s2)"
    using loop_retry [of 1 3, OF _ second caught2] by simp
  have counted: "int (warnings s3) = int (warnings s0) + 2
      + logged_inside b a args kw (begin_attempt a 0 3 s0)
      + logged_inside b a args kw (begin_attempt a 1 3 (note_failure a e1 s1))
      + logged_inside b a args kw (begin_attempt a 2 3 (note_failure a e2 s2))"
    by (simp add: logged_inside_def first second third warnings_begin_attempt
        warnings_note_failure)
  have success: "do_action b a 3 args kw s0 = (Inr v, s3)" if "r3 = Inr v" for v
    using loop_break [of 2 3 b a args kw "note_failure a e2 s2" v s3] third that step1 step2
    by simp
  have failure: "\<exists>msg. do_action b a 3 args kw s0 =
                   (Inl (TionException (name a) msg), note_failure a e3 s3)"
    if "r3 = Inl e3" and "is_Exception e3"
      and ok: "name a = ''__try_write'' \<longrightarrow> map_of kw ''request'' \<noteq> None"
    for e3
  proof -
    have step3: "do_action_loop b a 3 args kw 2 (note_failure a e2 s2) =
                 do_action_loop b a 3 args kw 3 (note_failure a e3 s3)"
      using loop_retry [of 2 3 b a args kw "note_failure a e2 s2" e3 s3] third that(1,2)
      by simp
    have stop: "do_action_loop b a 3 args kw 3 (note_failure a e3 s3) =
                (Inl (exhausted a kw (note_failure a e3 s3)), note_failure a e3 s3)"
      by (rule loop_else) simp
    from exhausted_TionException [OF ok, of "note_failure a e3 s3"] step1 step2 step3 stop
    show ?thesis by auto
  qed
  have escape: "do_action b a 3 args kw s0 = (Inl e3, s3)"
    if "r3 = Inl e3" and "\<not> is_Exception e3" for e3
    using loop_escape [of 2 3 b a args kw "note_failure a e2 s2" e3 s3] third that step1 step2
    by simp
  from counted success failure escape show ?thesis by blast
qed

theorem do_action_three_attempts_witness:
  "fst (do_action flaky (try_write_action flaky) 3 [] [(''request'', [0x3d, 0x01])]
          (tion_init ''aa:bb'' (fresh_client 0 2))) = Inr PyNone \<and>
   warnings (snd (do_action flaky (try_write_action flaky) 3 [] [(''request'', [0x3d, 0x01])]
          (tion_init ''aa:bb'' (fresh_client 0 2)))) = 2 \<and>
   fst (do_action flaky (failing_action ''poll'') 3 [] [] (tion_init ''dummy'' (fresh_client 0 0))) =
     Inl (TionException ''poll'' ''Could not do poll'')"
proof -
  let ?w = "try_write_action flaky"
  let ?kw = "[(''request'', [0x3d, 0x01 :: byte])]"
  let ?s0 = "tion_init ''aa:bb'' (fresh_client 0 2)"
  let ?i1 = "begin_attempt ?w 0 3 ?s0"
  let ?s1 = "snd (attempt flaky ?w [] ?kw ?i1)"
  let ?i2 = "begin_attempt ?w 1 3 (note_failure ?w (BleakError ''write failed'') ?s1)"
  let ?s2 = "snd (attempt flaky ?w [] ?kw ?i2)"
  let ?i3 = "begin_attempt ?w 2 3 (note_failure ?w (BleakError ''write failed'') ?s2)"
  let ?s3 = "snd (attempt flaky ?w [] ?kw ?i3)"
  have f1: "fst (attempt flaky ?w [] ?kw ?i1) = Inl (BleakError ''write failed'')"
    by code_simp
  have f2: "fst (attempt flaky ?w [] ?kw ?i2) = Inl (BleakError ''write failed'')"
    by code_simp
  have f3: "fst (attempt flaky ?w [] ?kw ?i3) = Inr PyNone"
    by code_simp
  have h1: "attempt flaky ?w [] ?kw ?i1 = (Inl (BleakError ''write failed''), ?s1)"
    using f1 by (simp add: prod_eq_iff)
  have h2: "attempt flaky ?w [] ?kw ?i2 = (Inl (BleakError ''write failed''), ?s2)"
    using f2 by (simp add: prod_eq_iff)
  have h3: "attempt flaky ?w [] ?kw ?i3 = (Inr PyNone, ?s3)"
    using f3 by (simp add: prod_eq_iff)
  have w0: "warnings ?s0 = 0" by code_simp
  have q1: "logged_inside flaky ?w [] ?kw ?i1 = 0" by code_simp
  have q2: "logged_inside flaky ?w [] ?kw ?i2 = 0" by code_simp
  have q3: "logged_inside flaky ?w [] ?kw ?i3 = 0" by code_simp
  have caught: "is_Exception (BleakError ''write failed'')" by simp
  from do_action_three_attempts [OF h1 caught h2 caught h3]
  have run: "do_action flaky ?w 3 [] ?kw ?s0 = (Inr PyNone, ?s3)"
    and count: "int (warnings ?s3) = int (warnings ?s0) + 2
      + logged_inside flaky ?w [] ?kw ?i1 + logged_inside flaky ?w [] ?kw ?i2
      + logged_inside flaky ?w [] ?kw ?i3"
    by blast+
  from count have two: "warnings ?s3 = 2" by (simp add: w0 q1 q2 q3)
  let ?p = "failing_action ''poll'' :: script action"
  let ?t0 = "tion_init ''dummy'' (fresh_client 0 0)"
  let ?j1 = "begin_attempt ?p 0 3 ?t0"
  let ?t1 = "snd (attempt flaky ?p [] [] ?j1)"
  let ?j2 = "begin_attempt ?p 1 3 (note_failure ?p (OtherException ''boom'') ?t1)"
  let ?t2 = "snd (attempt flaky ?p [] [] ?j2)"
  let ?j3 = "begin_attempt ?p 2 3 (note_failure ?p (OtherException ''boom'') ?t2)"
  let ?t3 = "snd (attempt flaky ?p [] [] ?j3)"
  have g1: "attempt flaky ?p [] [] ?j1 = (Inl (OtherException ''boom''), ?t1)"
    by (simp add: attempt_def failing_action_def connect_def mac_def begin_attempt_def
        emit_def tion_init_def)
  have g2: "attempt flaky ?p [] [] ?j2 = (Inl (OtherException ''boom''), ?t2)"
    by (simp add: attempt_def failing_action_def connect_def mac_def begin_attempt_def
        note_failure_def emit_def tion_init_def)
  have g3: "attempt flaky ?p [] [] ?j3 = (Inl (OtherException ''boom''), ?t3)"
    by (simp add: attempt_def failing_action_def connect_def mac_def begin_attempt_def
        note_failure_def emit_def tion_init_def)
  have nm: "name ?p = ''poll''" by (simp add: failing_action_def)
  have side: "name ?p = ''__try_write'' \<longrightarrow> map_of ([] :: kwargs) ''request'' \<noteq> None"
    by (simp add: nm)
  have caught': "is_Exception (OtherException ''boom'')" by simp
  from do_action_three_attempts [OF g1 caught' g2 caught' g3] side caught'
  obtain msg where raised: "do_action flaky ?p 3 [] [] ?t0 =
      (Inl (TionException (name ?p) msg), note_failure ?p (OtherException ''boom'') ?t3)"
    by blast
  have direct: "fst (do_action flaky ?p 3 [] [] ?t0) =
      Inl (TionException ''poll'' ''Could not do poll'')"
    by code_simp
  from run two raised direct show ?thesis by simp
qed

text \<open>The claim as stated fails for the connect operation as the action: when the client
  refuses twice and then accepts, \<^verbatim>\<open>_connect\<close> logs a warning of its own at each refusal
  and the wrapper logs another, so the run that succeeds at the third attempt leaves four
  warnings in a log that was empty.\<close>

theorem do_action_three_attempts_counterexample:
  "warnings (tion_init ''aa:bb'' (fresh_client 2 0)) = 0 \<and>
   fst (do_action flaky (connect_action flaky) 3 [] [] (tion_init ''aa:bb'' (fresh_client 2 0))) =
     Inr PyNone \<and>
   warnings (snd (do_action flaky (connect_action flaky) 3 [] []
     (tion_init ''aa:bb'' (fresh_client 2 0)))) = 4"
  by code_simp

section \<open>The sentinel address\<close>

lemma emit_keeps_client: "calls (emit lvl msg self) = calls self \<and> btle_attr (emit lvl msg self) = btle_attr self"
  by (simp add: emit_def)

lemma connection_status_trace:
  "calls (snd (connection_status b self)) = calls self @ [IsConnected] \<and>
   btle_attr (snd (connection_status b self)) = snd (bleak_is_connected b (btle_attr self)) \<and>
   mac (snd (connection_status b self)) = mac self"
  by (simp add: connection_status_def invoke_def mac_def split: prod.splits sum.splits)

text \<open>With the address \<^verbatim>\<open>dummy\<close>, \<^verbatim>\<open>_connect\<close> and \<^verbatim>\<open>_try_write\<close> test the address first:
  they only log, make no call on the client and return \<^verbatim>\<open>None\<close> and the string
  \<^verbatim>\<open>dummy write\<close>.\<close>

lemma dummy_connect_write:
  assumes dummy: "mac self = ''dummy''"
  shows "connect b self = (Inr PyNone, emit INFO ''Dummy connect'' self) \<and>
         calls (snd (connect b self)) = calls self \<and>
         btle_attr (snd (connect b self)) = btle_attr self \<and>
         try_write b request self = (Inr (PyStr ''dummy write''), emit INFO ''Dummy write'' self) \<and>
         calls (snd (try_write b request self)) = calls self \<and>
         btle_attr (snd (try_write b request self)) = btle_attr self"
  using dummy by (simp add: connect_def try_write_def emit_keeps_client)

text \<open>\<^verbatim>\<open>_disconnect\<close> asks the client for its state before it looks at the address, for
  every client and every driver state.\<close>

lemma disconnect_asks_first:
  "take (Suc (length (calls self))) (calls (snd (disconnect b self))) = calls self @ [IsConnected]"
proof -
  obtain r s1 where cs: "connection_status b self = (r, s1)"
    by (cases "connection_status b self")
  have tr: "calls s1 = calls self @ [IsConnected]"
    using connection_status_trace [of b self] cs by simp
  show ?thesis
  proof (cases r)
    case (Inl e)
    with cs tr show ?thesis by (simp add: disconnect_def)
  next
    case (Inr status)
    with cs tr show ?thesis
      by (auto simp add: disconnect_def invoke_def split: prod.splits sum.splits)
  qed
qed

text \<open>
  Claim C3. With the address \<^verbatim>\<open>dummy\<close> no operation is to touch the client. \<^verbatim>\<open>_disconnect\<close>
  on a fresh dummy driver returns \<^verbatim>\<open>None\<close> but has asked the client whether it is
  connected: its guard on the address sits under the status query, so the trace, empty
  before, holds that one call; the same happens with a client that reports itself
  connected.
\<close>

theorem dummy_disconnect_queries_client:
  "calls (tion_init ''dummy'' (fresh_client 0 0)) = [] \<and>
   fst (disconnect flaky (tion_init ''dummy'' (fresh_client 0 0))) = Inr PyNone \<and>
   calls (snd (disconnect flaky (tion_init ''dummy'' (fresh_client 0 0)))) = [IsConnected] \<and>
   calls (snd (disconnect flaky
     (tion_init ''dummy'' ((fresh_client 0 0)\<lparr>connected := True\<rparr>)))) = [IsConnected]"
  by (simp add: disconnect_def connection_status_def invoke_def tion_init_def flaky_def
      fresh_client_def mac_def)

section \<open>The message after the last attempt\<close>

lemma exhausted_connect:
  "exhausted (connect_action b) kw s = TionException ''_connect'' (''Could not connect to '' @ mac s)"
  by (simp add: exhausted_def connect_action_def)

lemma exhausted_try_write:
  "exhausted (try_write_action b) kw s = TionException ''_try_write'' ''Could not do _try_write''"
  by (simp add: exhausted_def try_write_action_def)

lemma exhausted_get_state:
  "name a = ''__try_get_state'' \<Longrightarrow>
   exhausted a kw s = TionException ''__try_get_state'' ''Could not get updated state''"
  by (simp add: exhausted_def)

lemma exhausted_private_write:
  "name a = ''__try_write'' \<Longrightarrow> map_of kw ''request'' = Some r \<Longrightarrow>
   exhausted a kw s = TionException ''__try_write'' (''Could not write request + '' @ hex r)"
  by (simp add: exhausted_def)

lemma exhausted_other:
  "name a \<notin> {''_connect'', ''__try_write'', ''__try_get_state''} \<Longrightarrow>
   exhausted a kw s = TionException (name a) (''Could not do '' @ name a)"
  by (simp add: exhausted_def)

text \<open>
  Claim C4. After the last failed attempt the message is chosen by the action's name. The
  driver's write action is named \<^verbatim>\<open>_try_write\<close> while the code compares with
  \<^verbatim>\<open>__try_write\<close>: three failed writes of the request 3d01 raise \<^verbatim>\<open>TionException\<close> with the
  generic message for the name \<^verbatim>\<open>_try_write\<close>, not a message with the request's hex.
\<close>

theorem write_exhausted_message:
  "do_action flaky (try_write_action flaky) 3 [] [(''request'', [0x3d, 0x01])]
     (tion_init ''aa:bb'' (fresh_client 0 3)) =
   (Inl (TionException ''_try_write'' ''Could not do _try_write''),
    snd (do_action flaky (try_write_action flaky) 3 [] [(''request'', [0x3d, 0x01])]
     (tion_init ''aa:bb'' (fresh_client 0 3)))) \<and>
   hex [0x3d, 0x01] = ''3d01'' \<and>
   length (filter (\<lambda>c. c = WriteGattChar [] [0x3d, 0x01] False)
     (calls (snd (do_action flaky (try_write_action flaky) 3 [] [(''request'', [0x3d, 0x01])]
       (tion_init ''aa:bb'' (fresh_client 0 3)))))) = 3"
  by code_simp

end
